theory Spec2Isabelle
  imports Main "HOL-Library.Multiset"
begin

section \<open>The HTTP API of the gotel monitor (api.go)\<close>

text \<open>
  A shallow embedding of the request handlers of \<^verbatim>\<open>api.go\<close>. Every handler is a
  function of what its library calls return: the cursor a database query yields, the
  answer of an HTTP poll, the decoded request body. Functions of the package that
  \<^verbatim>\<open>api.go\<close> calls but does not define are parameters of the handler that calls
  them.
\<close>

subsection \<open>Errors, structs and library results\<close>

text \<open>A Go \<^verbatim>\<open>error\<close> value: \<^verbatim>\<open>errors.New(msg)\<close> is \<open>Err msg\<close>, \<^verbatim>\<open>nil\<close> is \<open>None\<close>.\<close>

datatype error = Err string

fun message :: "error \<Rightarrow> string" where
  "message (Err m) = m"

text \<open>\<^verbatim>\<open>type node struct { ID int; IPAddress string; NodeID int; IsCoordinator bool }\<close>\<close>

record node =
  ID :: int
  IPAddress :: string
  NodeID :: int
  IsCoordinator :: bool

text \<open>
  The three columns \<^verbatim>\<open>id, ip_address, node_id\<close> that \<^verbatim>\<open>rows.Scan\<close> reads from one
  row of the \<^verbatim>\<open>nodes\<close> table.
\<close>

type_synonym node_row = "int \<times> string \<times> int"

text \<open>
  What \<^verbatim>\<open>ge.Db.Query\<close> returns: an error, or a cursor. The cursor is the list of its
  rows, each of them the outcome of \<^verbatim>\<open>rows.Scan\<close> on that row (\<open>Inl\<close> when the scan
  fails).
\<close>

type_synonym 'r cursor = "error + (error + 'r) list"

text \<open>
  What \<^verbatim>\<open>http.Get\<close> returns: a transport error, or a response with its status code, the
  bytes \<^verbatim>\<open>ioutil.ReadAll\<close> reads from its body, and whether that read reports an error.
\<close>

record http_response =
  StatusCode :: int
  Body :: string
  ReadErr :: bool

datatype get_result = GetFailed | GetOk http_response

subsection \<open>getNodes\<close>

text \<open>\<^verbatim>\<open>fmt.Sprintf("http://%s:8080/is-coordinator", res.IPAddress)\<close>\<close>

definition coordinator_url :: "string \<Rightarrow> string" where
  "coordinator_url ip = ''http://'' @ ip @ '':8080/is-coordinator''"

text \<open>
  The loop of \<^verbatim>\<open>getNodes\<close> over the cursor, with the slice \<^verbatim>\<open>nodes\<close> as accumulator.
  A failed scan returns the error; a failed \<^verbatim>\<open>http.Get\<close> and a status other than 200
  \<^verbatim>\<open>continue\<close> with the next row, before the \<^verbatim>\<open>append\<close>; a failed read of the body is
  only logged.
\<close>

fun getNodes_loop :: "(string \<Rightarrow> get_result) \<Rightarrow> (error + node_row) list \<Rightarrow> node list \<Rightarrow> error + node list" where
  "getNodes_loop get [] nodes = Inr nodes"
| "getNodes_loop get (Inl e # rows) nodes = Inl e"
| "getNodes_loop get (Inr (i, ip, n) # rows) nodes =
     (let res = \<lparr>ID = i, IPAddress = ip, NodeID = n, IsCoordinator = False\<rparr> in
      case get (coordinator_url (IPAddress res)) of
        GetFailed \<Rightarrow> getNodes_loop get rows nodes
      | GetOk resp \<Rightarrow>
          if StatusCode resp \<noteq> 200 then getNodes_loop get rows nodes
          else getNodes_loop get rows
                 (nodes @ [if Body resp = ''true'' then res\<lparr>IsCoordinator := True\<rparr> else res]))"

definition getNodes :: "(string \<Rightarrow> get_result) \<Rightarrow> node_row cursor \<Rightarrow> error + node list" where
  "getNodes get query =
     (case query of
        Inl err \<Rightarrow> Inl err
      | Inr rows \<Rightarrow> getNodes_loop get rows [])"

text \<open>
  A peer is reachable when the poll of its address returns a response with status 200;
  a transport failure and any other status make it unreachable.
\<close>

definition reachable :: "(string \<Rightarrow> get_result) \<Rightarrow> node_row \<Rightarrow> bool" where
  "reachable get row =
     (case get (coordinator_url (fst (snd row))) of
        GetFailed \<Rightarrow> False
      | GetOk resp \<Rightarrow> StatusCode resp = 200)"

text \<open>The node reported for a reachable peer: coordinator when the body read is \<^verbatim>\<open>true\<close>.\<close>

definition polled :: "(string \<Rightarrow> get_result) \<Rightarrow> node_row \<Rightarrow> node" where
  "polled get row =
     \<lparr>ID = fst row, IPAddress = fst (snd row), NodeID = snd (snd row),
      IsCoordinator =
        (case get (coordinator_url (fst (snd row))) of
           GetFailed \<Rightarrow> False
         | GetOk resp \<Rightarrow> Body resp = ''true'')\<rparr>"

text \<open>
  A network for the examples: the peer at 10.0.0.2 answers 200 with the body \<^verbatim>\<open>true\<close>,
  every other request fails in transport.
\<close>

definition example_network :: "string \<Rightarrow> get_result" where
  "example_network url =
     (if url = ''http://10.0.0.2:8080/is-coordinator''
      then GetOk \<lparr>StatusCode = 200, Body = ''true'', ReadErr = False\<rparr>
      else GetFailed)"

subsection \<open>getReservations\<close>

text \<open>
  The struct \<^verbatim>\<open>reservation\<close> is declared outside \<^verbatim>\<open>api.go\<close>; these are the fields
  that \<^verbatim>\<open>api.go\<close> reads and writes. \<^verbatim>\<open>LastCheckin\<close> is Unix seconds.
\<close>

record reservation =
  JobID :: int
  App :: string
  Component :: string
  Owner :: string
  Notify :: string
  AlertMessage :: string
  Frequency :: int
  TimeUnits :: string
  LastCheckin :: int
  NumCheckins :: int
  TimeSinceLastCheckin :: string
  LastCheckinStr :: string
  FailingSLA :: bool

text \<open>The value of \<^verbatim>\<open>reservation{}\<close>: every field at its zero value.\<close>

definition reservation_zero :: reservation where
  "reservation_zero =
     \<lparr>JobID = 0, App = [], Component = [], Owner = [], Notify = [], AlertMessage = [],
      Frequency = 0, TimeUnits = [], LastCheckin = 0, NumCheckins = 0,
      TimeSinceLastCheckin = [], LastCheckinStr = [], FailingSLA = False\<rparr>"

text \<open>
  One row of the \<^verbatim>\<open>reservations\<close> table, with the columns the query of
  \<^verbatim>\<open>getReservations\<close> selects. Only \<^verbatim>\<open>alert_msg\<close> is scanned into a nullable target.
\<close>

record reservation_row =
  id_col :: int
  app :: string
  component :: string
  owner :: string
  notify :: string
  alert_msg :: "string option"
  frequency :: int
  time_units :: string
  last_checkin_timestamp :: int
  num_checkins :: int

text \<open>
  \<^verbatim>\<open>sql.NullString\<close> and its \<^verbatim>\<open>Scan\<close>: a NULL column gives the empty string with
  \<^verbatim>\<open>Valid = false\<close>.
\<close>

record NullString =
  String_of :: string
  Valid :: bool

definition scan_NullString :: "string option \<Rightarrow> NullString" where
  "scan_NullString v =
     (case v of
        None \<Rightarrow> \<lparr>String_of = [], Valid = False\<rparr>
      | Some s \<Rightarrow> \<lparr>String_of = s, Valid = True\<rparr>)"

text \<open>
  What \<^verbatim>\<open>getReservations\<close> calls and \<^verbatim>\<open>api.go\<close> does not define: the package's
  \<^verbatim>\<open>RelTime\<close> and \<^verbatim>\<open>FailsSLA\<close>, the formatting of a time as RFC 1123, and the clock.
  Times are Unix seconds.
\<close>

record deps =
  RelTime :: "int \<Rightarrow> int \<Rightarrow> string \<Rightarrow> string \<Rightarrow> string"
  FailsSLA :: "reservation \<Rightarrow> bool"
  Format_RFC1123 :: "int \<Rightarrow> string"
  Now :: int

text \<open>The body of the loop of \<^verbatim>\<open>getReservations\<close> for a row that scans.\<close>

definition scan_reservation :: "deps \<Rightarrow> reservation_row \<Rightarrow> reservation" where
  "scan_reservation d row =
     (let alertMessage = scan_NullString (alert_msg row);
          res = reservation_zero
                  \<lparr>JobID := id_col row, App := app row, Component := component row,
                   Owner := owner row, Notify := notify row, Frequency := frequency row,
                   TimeUnits := time_units row, LastCheckin := last_checkin_timestamp row,
                   NumCheckins := num_checkins row\<rparr>;
          lastCheckin = LastCheckin res;
          res = res\<lparr>TimeSinceLastCheckin := RelTime d lastCheckin (Now d) ''ago'' []\<rparr>;
          res = res\<lparr>LastCheckinStr := Format_RFC1123 d lastCheckin\<rparr>;
          res = (if FailsSLA d res then res\<lparr>FailingSLA := True\<rparr>
                 else res\<lparr>FailingSLA := False\<rparr>)
      in if \<not> Valid alertMessage \<or> String_of alertMessage = []
         then res\<lparr>AlertMessage := String_of alertMessage\<rparr>
         else res)"

fun getReservations_loop :: "deps \<Rightarrow> (error + reservation_row) list \<Rightarrow> reservation list \<Rightarrow> error + reservation list" where
  "getReservations_loop d [] reservations = Inr reservations"
| "getReservations_loop d (Inl e # rows) reservations = Inl e"
| "getReservations_loop d (Inr row # rows) reservations =
     getReservations_loop d rows (reservations @ [scan_reservation d row])"

definition getReservations :: "deps \<Rightarrow> reservation_row cursor \<Rightarrow> error + reservation list" where
  "getReservations d query =
     (case query of
        Inl err \<Rightarrow> Inl err
      | Inr rows \<Rightarrow> getReservations_loop d rows [])"

text \<open>
  The rows the database returns for the query of \<^verbatim>\<open>getReservations\<close>,
  \<^verbatim>\<open>SELECT ... FROM reservations ORDER BY last_checkin_timestamp DESC\<close>, on a table
  whose rows all scan.
\<close>

definition select_reservations :: "reservation_row list \<Rightarrow> reservation_row cursor" where
  "select_reservations tbl = Inr (map Inr (sort_key (\<lambda>row. - last_checkin_timestamp row) tbl))"

subsection \<open>Requests and replies\<close>

text \<open>
  The request structs, declared outside \<^verbatim>\<open>api.go\<close>, with the fields named there and
  in the data model of the specification.
\<close>

record checkin =
  App_checkin :: string
  Component_checkin :: string

record snooze =
  App_snooze :: string
  Component_snooze :: string
  Duration :: int
  TimeUnits_snooze :: string

text \<open>
  What \<^verbatim>\<open>decoder.Decode(&p)\<close> leaves behind, \<^verbatim>\<open>p\<close> being a pointer to a fresh struct:
  the struct decoded from the body; a nil pointer, when the body is the JSON value
  \<^verbatim>\<open>null\<close> (no error is reported then); or an error, with the struct as far as it was
  filled.
\<close>

datatype 'a decoded = Decoded 'a | DecodedNil | DecodeError 'a

text \<open>
  The JSON values the handlers write: a string, a \<^verbatim>\<open>Response\<close> with the keys
  \<^verbatim>\<open>success\<close> and \<^verbatim>\<open>message\<close>, or one with \<^verbatim>\<open>success\<close> and \<^verbatim>\<open>result\<close>.
\<close>

datatype payload =
  Text string
  | Status bool string
  | Listing bool "reservation list"

text \<open>
  How a handler ends: with a reply (status code and payload), or in the panic of a nil
  pointer dereference.
\<close>

datatype outcome = Reply int payload | Panic

definition writeError :: "payload \<Rightarrow> outcome" where
  "writeError e = Reply 400 e"

definition writeResponse :: "payload \<Rightarrow> outcome" where
  "writeResponse e = Reply 200 e"

subsection \<open>Validation\<close>

definition validTimeUnits :: "string \<rightharpoonup> int" where
  "validTimeUnits = [''seconds'' \<mapsto> 1, ''minutes'' \<mapsto> 1, ''hours'' \<mapsto> 1]"

definition validateSnooze :: "snooze \<Rightarrow> error option" where
  "validateSnooze snooze =
     (let ok = (validTimeUnits (TimeUnits_snooze snooze) \<noteq> None) in
      if \<not> ok then Some (Err ''Invalid time_units passed in'')
      else if Duration snooze = 0 then Some (Err [])
      else None)"

definition validateReservation :: "reservation \<Rightarrow> error option" where
  "validateReservation res =
     (let timeUnits = [''seconds'' \<mapsto> 1, ''minutes'' \<mapsto> 1, ''hours'' \<mapsto> (1::int)];
          ok = (timeUnits (TimeUnits res) \<noteq> None) in
      if \<not> ok then Some (Err ''Invalid time_units passed in'')
      else None)"

subsection \<open>The handlers\<close>

text \<open>
  A handler takes the database and returns it with its outcome. The functions that
  write to the database (\<^verbatim>\<open>storeReservation\<close>, \<^verbatim>\<open>storeCheckin\<close>, \<^verbatim>\<open>logHouseKeeping\<close>,
  \<^verbatim>\<open>storeSnooze\<close>) are not defined in \<^verbatim>\<open>api.go\<close>: each is a parameter, a function
  from the database to the database it leaves and the error it returns.
\<close>

text \<open>
  \<^verbatim>\<open>makeReservation\<close>: a decoding error is only logged, and validation goes on with the
  struct as it is.
\<close>

definition makeReservation ::
  "('db \<Rightarrow> reservation \<Rightarrow> 'db \<times> error option) \<Rightarrow> 'db \<Rightarrow> reservation decoded \<Rightarrow> 'db \<times> outcome" where
  "makeReservation storeReservation db req =
     (case (case req of Decoded r \<Rightarrow> Some r | DecodeError r \<Rightarrow> Some r | DecodedNil \<Rightarrow> None) of
        None \<Rightarrow> (db, Panic)
      | Some res \<Rightarrow>
          (case validateReservation res of
             Some err \<Rightarrow>
               (db, writeError (Text (''Unable to store reservation, validation failure [''
                                       @ message err @ '']'')))
           | None \<Rightarrow>
               (case storeReservation db res of
                  (db', Some err) \<Rightarrow> (db', writeError (Text ''Unable to store reservation''))
                | (db', None) \<Rightarrow> (db', writeResponse (Text ''OK'')))))"

definition listReservations :: "deps \<Rightarrow> reservation_row cursor \<Rightarrow> outcome" where
  "listReservations d query =
     (case getReservations d query of
        Inl err \<Rightarrow> writeResponse (Status False ''Unable to list reservations'')
      | Inr reservations \<Rightarrow> writeResponse (Listing True reservations))"

text \<open>\<^verbatim>\<open>doCheckin\<close>, with \<^verbatim>\<open>now\<close> the clock read after decoding.\<close>

definition doCheckin ::
  "('db \<Rightarrow> checkin \<Rightarrow> int \<Rightarrow> 'db \<times> error option) \<Rightarrow> ('db \<Rightarrow> checkin \<Rightarrow> int \<Rightarrow> 'db \<times> error option)
     \<Rightarrow> 'db \<Rightarrow> checkin decoded \<Rightarrow> int \<Rightarrow> 'db \<times> outcome" where
  "doCheckin storeCheckin logHouseKeeping db req now =
     (case req of
        DecodeError c \<Rightarrow>
          (db, writeResponse (Status False (''Unable to checkin: '' @ App_checkin c)))
      | DecodedNil \<Rightarrow> (db, Panic)
      | Decoded c \<Rightarrow>
          (case storeCheckin db c now of
             (db1, Some err) \<Rightarrow>
               (db1, writeResponse (Status False (''Unable to save checkin: '' @ App_checkin c)))
           | (db1, None) \<Rightarrow>
               (case logHouseKeeping db1 c now of
                  (db2, Some err) \<Rightarrow>
                    (db2, writeResponse (Status False (''Unable to save checkin: '' @ App_checkin c)))
                | (db2, None) \<Rightarrow>
                    (db2, writeResponse (Status True (''Application checked in: '' @ App_checkin c))))))"

definition doSnooze ::
  "('db \<Rightarrow> snooze \<Rightarrow> 'db \<times> error option) \<Rightarrow> 'db \<Rightarrow> snooze decoded \<Rightarrow> 'db \<times> outcome" where
  "doSnooze storeSnooze db req =
     (case req of
        DecodeError p \<Rightarrow>
          (db, writeResponse (Status False (''Unable to snooze: '' @ App_snooze p)))
      | DecodedNil \<Rightarrow> (db, Panic)
      | Decoded p \<Rightarrow>
          (case validateSnooze p of
             Some err \<Rightarrow>
               (db, writeError (Text (''Unable to store snooze, validation failure [''
                                       @ message err @ '']'')))
           | None \<Rightarrow>
               (case storeSnooze db p of
                  (db', Some err) \<Rightarrow>
                    (db', writeResponse (Status False (''Unable to save snooze: '' @ App_snooze p)))
                | (db', None) \<Rightarrow>
                    (db', writeResponse
                            (Status True (''Application alerting paused: '' @ App_snooze p))))))"

subsection \<open>The store\<close>

text \<open>
  Modelled from the spec: the database and the functions \<^verbatim>\<open>storeReservation\<close>,
  \<^verbatim>\<open>storeCheckin\<close>, \<^verbatim>\<open>logHouseKeeping\<close> and \<^verbatim>\<open>storeSnooze\<close>, which \<^verbatim>\<open>api.go\<close>
  calls and does not define. The store holds the table of reservations, where the pair
  (app, component) is unique, the append-only housekeeping log, and the snoozes.
\<close>

datatype log_entry = ReservationLogged string string | CheckinLogged string string int

record store =
  reservations_tbl :: "reservation_row list"
  housekeeping_tbl :: "log_entry list"
  snoozes_tbl :: "snooze list"

definition same_pair :: "string \<Rightarrow> string \<Rightarrow> reservation_row \<Rightarrow> bool" where
  "same_pair a c row = (app row = a \<and> component row = c)"

text \<open>The key of a new row: one more than the largest key in the table.\<close>

definition next_id :: "reservation_row list \<Rightarrow> int" where
  "next_id tbl = 1 + fold max (map id_col tbl) 0"

text \<open>
  Modelled from the spec: any operation of the store may fail with a store error, and is
  then not applied at all. The first argument of each operation says whether this call
  fails.
\<close>

definition store_error :: error where
  "store_error = Err ''store error''"

text \<open>
  Modelled from the spec: \<^verbatim>\<open>storeReservation\<close> (InsertReservation) persists a new
  reservation with \<open>numCheckins = 0\<close> and \<open>lastCheckinTimestamp = 0\<close>, and appends a
  housekeeping log entry. A row that the pair already has is replaced, which keeps the
  pair unique.
\<close>

definition storeReservation :: "bool \<Rightarrow> store \<Rightarrow> reservation \<Rightarrow> store \<times> error option" where
  "storeReservation fails db res =
     (if fails then (db, Some store_error)
      else
        (db\<lparr>reservations_tbl :=
               filter (\<lambda>row. \<not> same_pair (App res) (Component res) row) (reservations_tbl db)
               @ [\<lparr>id_col = next_id (reservations_tbl db), app = App res,
                    component = Component res, owner = Owner res, notify = Notify res,
                    alert_msg = Some (AlertMessage res), frequency = Frequency res,
                    time_units = TimeUnits res, last_checkin_timestamp = 0,
                    num_checkins = 0\<rparr>],
             housekeeping_tbl :=
               housekeeping_tbl db @ [ReservationLogged (App res) (Component res)]\<rparr>,
         None))"

text \<open>
  Modelled from the spec: \<^verbatim>\<open>storeCheckin\<close> (UpdateCheckin) sets
  \<open>lastCheckinTimestamp = now\<close> and increments \<open>numCheckins\<close> for the pair. A checkin for
  a pair without a reservation is accepted and recorded, with \<open>numCheckins = 1\<close>; the
  specification gives such a record no frequency or time units, and they are left at
  their zero values here.
\<close>

definition storeCheckin :: "bool \<Rightarrow> store \<Rightarrow> checkin \<Rightarrow> int \<Rightarrow> store \<times> error option" where
  "storeCheckin fails db c now =
     (if fails then (db, Some store_error)
      else if filter (same_pair (App_checkin c) (Component_checkin c)) (reservations_tbl db) = []
      then
        (db\<lparr>reservations_tbl :=
               reservations_tbl db
               @ [\<lparr>id_col = next_id (reservations_tbl db), app = App_checkin c,
                    component = Component_checkin c, owner = [], notify = [],
                    alert_msg = None, frequency = 0, time_units = [],
                    last_checkin_timestamp = now, num_checkins = 1\<rparr>]\<rparr>,
         None)
      else
        (db\<lparr>reservations_tbl :=
               map (\<lambda>row. if same_pair (App_checkin c) (Component_checkin c) row
                          then row\<lparr>last_checkin_timestamp := now,
                                   num_checkins := num_checkins row + 1\<rparr>
                          else row)
                 (reservations_tbl db)\<rparr>,
         None))"

text \<open>
  Modelled from the spec: \<^verbatim>\<open>logHouseKeeping\<close> (InsertHousekeepingLog) appends the entry
  of a checkin to the housekeeping log.
\<close>

definition logHouseKeeping :: "bool \<Rightarrow> store \<Rightarrow> checkin \<Rightarrow> int \<Rightarrow> store \<times> error option" where
  "logHouseKeeping fails db c now =
     (if fails then (db, Some store_error)
      else
        (db\<lparr>housekeeping_tbl :=
               housekeeping_tbl db @ [CheckinLogged (App_checkin c) (Component_checkin c) now]\<rparr>,
         None))"

text \<open>Modelled from the spec: \<^verbatim>\<open>storeSnooze\<close> (InsertSnooze) persists the snooze.\<close>

definition storeSnooze :: "bool \<Rightarrow> store \<Rightarrow> snooze \<Rightarrow> store \<times> error option" where
  "storeSnooze fails db p =
     (if fails then (db, Some store_error)
      else (db\<lparr>snoozes_tbl := snoozes_tbl db @ [p]\<rparr>, None))"

subsection \<open>SLA evaluation\<close>

text \<open>
  Modelled from the spec: the SLA evaluation. \<^verbatim>\<open>getReservations\<close> calls \<^verbatim>\<open>FailsSLA\<close> and
  \<^verbatim>\<open>RelTime\<close>, which \<^verbatim>\<open>api.go\<close> does not define; what follows is the contract
  \<open>Evaluate(reservation, activeSnooze, now)\<close> of the specification.
\<close>

text \<open>
  Modelled from the spec: \<open>unitSeconds\<close>, the multiplier of a time unit. The
  specification gives it for the three recognised units only.
\<close>

definition unitSeconds :: "string \<Rightarrow> int option" where
  "unitSeconds u =
     (if u = ''seconds'' then Some 1
      else if u = ''minutes'' then Some 60
      else if u = ''hours'' then Some 3600
      else None)"

text \<open>
  Modelled from the spec: a snooze together with the instant it was issued at; its expiry
  instant is the issue time plus duration times unit.
\<close>

record issued_snooze = snooze +
  IssuedAt :: int

definition expiry :: "issued_snooze \<Rightarrow> int option" where
  "expiry s =
     (case unitSeconds (TimeUnits_snooze s) of
        None \<Rightarrow> None
      | Some u \<Rightarrow> Some (IssuedAt s + Duration s * u))"

text \<open>
  Modelled from the spec: a snooze is active for a reservation at \<open>now\<close> when it is for the
  same (app, component) and its expiry instant is after \<open>now\<close>.
\<close>

definition active :: "issued_snooze option \<Rightarrow> reservation \<Rightarrow> int \<Rightarrow> bool" where
  "active activeSnooze res now =
     (case activeSnooze of
        None \<Rightarrow> False
      | Some s \<Rightarrow>
          App_snooze s = App res \<and> Component_snooze s = Component res
          \<and> (case expiry s of None \<Rightarrow> False | Some e \<Rightarrow> now < e))"

record evaluation =
  failing :: bool
  elapsed :: int
  elapsedPhrase :: string

text \<open>
  Modelled from the spec: \<open>Evaluate\<close>. The allowed gap is frequency times unit, the
  elapsed time is \<open>now\<close> minus the last checkin; an active snooze gives
  \<open>failing = false\<close>, otherwise \<open>failing\<close> is \<open>elapsed > allowedGap\<close>. The edge case of
  the specification: a negative elapsed time (a last checkin in the future) is not
  treated as failing, and its phrase is clamped to \<^verbatim>\<open>just now\<close>. Otherwise the phrase is
  the relative-time rendering of the elapsed time followed by \<^verbatim>\<open>ago\<close>. The rendering
  of a duration in words, which the specification does not detail, is the parameter
  \<open>render\<close>. For a time unit outside the recognised set the specification defines no
  result.
\<close>

definition Evaluate ::
  "(int \<Rightarrow> string) \<Rightarrow> reservation \<Rightarrow> issued_snooze option \<Rightarrow> int \<Rightarrow> evaluation option" where
  "Evaluate render res activeSnooze now =
     (case unitSeconds (TimeUnits res) of
        None \<Rightarrow> None
      | Some u \<Rightarrow>
          (let allowedGap = Frequency res * u;
               elapsed = now - LastCheckin res
           in Some \<lparr>failing = (if active activeSnooze res now then False
                               else if elapsed < 0 then False
                               else elapsed > allowedGap),
                    elapsed = elapsed,
                    elapsedPhrase = (if elapsed < 0 then ''just now''
                                     else render elapsed @ '' ago'')\<rparr>))"

subsection \<open>Example inputs\<close>

text \<open>
  Helpers for the examples: a \<^verbatim>\<open>RelTime\<close> that returns its label, a \<^verbatim>\<open>FailsSLA\<close> that
  never fails, at the instant 1000.
\<close>

definition example_deps :: deps where
  "example_deps =
     \<lparr>RelTime = (\<lambda>a b albl blbl. albl), FailsSLA = (\<lambda>res. False),
      Format_RFC1123 = (\<lambda>t. []), Now = 1000\<rparr>"

text \<open>
  A table of two reservations: the first checked in at 100 and has an alert message,
  the second checked in at 300 and has none.
\<close>

definition example_table :: "reservation_row list" where
  "example_table =
     [\<lparr>id_col = 1, app = ''svc'', component = ''db'', owner = ''ops'', notify = ''ops@example'',
       alert_msg = Some ''disk full'', frequency = 5, time_units = ''minutes'',
       last_checkin_timestamp = 100, num_checkins = 7\<rparr>,
      \<lparr>id_col = 2, app = ''svc'', component = ''web'', owner = ''ops'', notify = ''ops@example'',
       alert_msg = None, frequency = 1, time_units = ''hours'',
       last_checkin_timestamp = 300, num_checkins = 2\<rparr>]"

text \<open>
  Requests for the examples: a reservation for svc/db every 5 minutes, a snooze of one
  hour for the same pair, and a checkin.
\<close>

definition example_reservation :: reservation where
  "example_reservation =
     reservation_zero\<lparr>App := ''svc'', Component := ''db'', Owner := ''ops'',
                      Notify := ''ops@example'', Frequency := 5, TimeUnits := ''minutes''\<rparr>"

definition example_snooze :: snooze where
  "example_snooze =
     \<lparr>App_snooze = ''svc'', Component_snooze = ''db'', Duration = 1, TimeUnits_snooze = ''hours''\<rparr>"

definition example_checkin :: checkin where
  "example_checkin = \<lparr>App_checkin = ''new'', Component_checkin = ''x''\<rparr>"

definition empty_store :: store where
  "empty_store = \<lparr>reservations_tbl = [], housekeeping_tbl = [], snoozes_tbl = []\<rparr>"

definition example_store :: store where
  "example_store = \<lparr>reservations_tbl = example_table, housekeeping_tbl = [], snoozes_tbl = []\<rparr>"

text \<open>
  The scenario of the specification: the reservation for svc/db, every 5 minutes, last
  checked in at T = 1000, and the snooze of one hour issued at T + 6 min.
\<close>

definition scenario_reservation :: reservation where
  "scenario_reservation = example_reservation\<lparr>LastCheckin := 1000\<rparr>"

definition scenario_snooze :: issued_snooze where
  "scenario_snooze =
     \<lparr>App_snooze = ''svc'', Component_snooze = ''db'', Duration = 1, TimeUnits_snooze = ''hours'',
      IssuedAt = 1360\<rparr>"

text \<open>A rendering for the examples, which renders every duration as \<^verbatim>\<open>a while\<close>.\<close>

definition example_render :: "int \<Rightarrow> string" where
  "example_render n = ''a while''"

section \<open>Properties\<close>


subsection \<open>Coordinator discovery\<close>

lemma getNodes_loop_scanned:
  "getNodes_loop get (map Inr rows) acc = Inr (acc @ map (polled get) (filter (reachable get) rows))"
proof (induction rows arbitrary: acc)
  case Nil
  show ?case by simp
next
  case (Cons row rows)
  obtain i ip n where row: "row = (i, ip, n)" by (cases row)
  show ?case
  proof (cases "get (coordinator_url ip)")
    case GetFailed
    then show ?thesis
      by (simp add: row Cons.IH reachable_def)
  next
    case (GetOk resp)
    show ?thesis
    proof (cases "StatusCode resp = 200")
      case False
      with GetOk show ?thesis
        by (simp add: row Cons.IH reachable_def)
    next
      case True
      with GetOk show ?thesis
        by (cases "Body resp = ''true''") (simp_all add: row Cons.IH reachable_def polled_def)
    qed
  qed
qed

lemma length_filter_complement:
  "length (filter P xs) = length xs - length (filter (\<lambda>x. \<not> P x) xs)"
proof -
  have "length (filter P xs) + length (filter (\<lambda>x. \<not> P x) xs) = length xs"
    by (rule sum_length_filter_compl)
  then show ?thesis by arith
qed

text \<open>
  C1, as the code has it. When every row of the node list scans, \<^verbatim>\<open>getNodes\<close> succeeds
  whatever the peers answer, and returns the reachable peers only, in the order of the
  store: the unreachable ones are left out of the result, so with N rows of which M are
  unreachable the result has N - M entries. Each entry is marked coordinator exactly
  when the body of its answer is \<^verbatim>\<open>true\<close>.
\<close>

theorem getNodes_reachable_only:
  "getNodes get (Inr (map Inr rows)) = Inr (map (polled get) (filter (reachable get) rows))
   \<and> length (map (polled get) (filter (reachable get) rows))
       = length rows - length (filter (\<lambda>row. \<not> reachable get row) rows)"
proof
  show "getNodes get (Inr (map Inr rows)) = Inr (map (polled get) (filter (reachable get) rows))"
    by (simp add: getNodes_def getNodes_loop_scanned)
  show "length (map (polled get) (filter (reachable get) rows))
       = length rows - length (filter (\<lambda>row. \<not> reachable get row) rows)"
    unfolding length_map by (rule length_filter_complement)
qed

text \<open>
  C1, as the specification states it, fails: of two nodes, the first unreachable and the
  second answering \<^verbatim>\<open>true\<close>, the result holds the second alone; its length is 1, not 2, and
  no entry stands for the unreachable peer.
\<close>

theorem getNodes_drops_unreachable:
  "getNodes example_network (Inr [Inr (1, ''10.0.0.1'', 0), Inr (2, ''10.0.0.2'', 1)])
   = Inr [\<lparr>ID = 2, IPAddress = ''10.0.0.2'', NodeID = 1, IsCoordinator = True\<rparr>]"
  by (simp add: getNodes_def coordinator_url_def example_network_def)

subsection \<open>Listing reservations\<close>

lemma scan_reservation_LastCheckin:
  "LastCheckin (scan_reservation d row) = last_checkin_timestamp row"
  by (simp add: scan_reservation_def Let_def)

lemma scan_reservation_AlertMessage:
  "AlertMessage (scan_reservation d row) = []"
  by (cases "alert_msg row")
     (simp_all add: scan_reservation_def scan_NullString_def reservation_zero_def Let_def)

lemma getReservations_loop_scanned:
  "getReservations_loop d (map Inr rows) acc = Inr (acc @ map (scan_reservation d) rows)"
  by (induction rows arbitrary: acc) simp_all

lemma getReservations_loop_AlertMessage:
  "getReservations_loop d rows acc = Inr rs \<Longrightarrow> \<forall>r \<in> set acc. AlertMessage r = []
   \<Longrightarrow> \<forall>r \<in> set rs. AlertMessage r = []"
proof (induction d rows acc rule: getReservations_loop.induct)
  case (1 d reservations)
  then show ?case by simp
next
  case (2 d e rows reservations)
  then show ?case by simp
next
  case (3 d row rows reservations)
  from "3.prems"(2) have "\<forall>r \<in> set (reservations @ [scan_reservation d row]). AlertMessage r = []"
    by (simp add: scan_reservation_AlertMessage)
  with "3.IH" "3.prems"(1) show ?case by simp
qed

lemma sorted_desc_select:
  "sorted_wrt (\<lambda>a b. LastCheckin b \<le> LastCheckin a)
     (map (scan_reservation d) (sort_key (\<lambda>row. - last_checkin_timestamp row) tbl))"
proof -
  have "sorted (map (\<lambda>row. - last_checkin_timestamp row)
                  (sort_key (\<lambda>row. - last_checkin_timestamp row) tbl))"
    by (rule sorted_sort_key)
  then have "sorted_wrt (\<lambda>a b. last_checkin_timestamp b \<le> last_checkin_timestamp a)
               (sort_key (\<lambda>row. - last_checkin_timestamp row) tbl)"
    by (simp add: sorted_wrt_map)
  then show ?thesis
    by (simp add: sorted_wrt_map scan_reservation_LastCheckin)
qed

lemma scan_reservation_columns:
  "(\<lambda>r. (JobID r, App r, Component r, Owner r, Notify r, Frequency r, TimeUnits r,
         LastCheckin r, NumCheckins r)) (scan_reservation d row)
   = (id_col row, app row, component row, owner row, notify row, frequency row,
      time_units row, last_checkin_timestamp row, num_checkins row)"
  by (cases "alert_msg row")
     (simp_all add: scan_reservation_def scan_NullString_def reservation_zero_def Let_def)

text \<open>
  C9. On a table whose rows all scan, listing succeeds and returns the stored
  reservations ordered by recency of last checkin: the listed reservations carry, one
  for one and in this order, the stored columns of the rows of the table sorted by
  \<^verbatim>\<open>last_checkin_timestamp\<close>, descending, which are the rows of the table in another
  order. So the list is sorted by \<^verbatim>\<open>LastCheckin\<close>, descending, and of two adjacent
  elements the earlier has a \<^verbatim>\<open>LastCheckin\<close> greater than or equal to the later's.
\<close>

theorem getReservations_ordered_by_recency:
  "\<exists>rs. getReservations d (select_reservations tbl) = Inr rs
     \<and> map (\<lambda>r. (JobID r, App r, Component r, Owner r, Notify r, Frequency r, TimeUnits r,
                 LastCheckin r, NumCheckins r)) rs
         = map (\<lambda>row. (id_col row, app row, component row, owner row, notify row, frequency row,
                   time_units row, last_checkin_timestamp row, num_checkins row))
             (sort_key (\<lambda>row. - last_checkin_timestamp row) tbl)
     \<and> mset (map (\<lambda>r. (JobID r, App r, Component r, Owner r, Notify r, Frequency r, TimeUnits r,
                 LastCheckin r, NumCheckins r)) rs)
         = mset (map (\<lambda>row. (id_col row, app row, component row, owner row, notify row,
                   frequency row, time_units row, last_checkin_timestamp row, num_checkins row))
             tbl)
     \<and> length rs = length tbl
     \<and> sorted_wrt (\<lambda>a b. LastCheckin b \<le> LastCheckin a) rs
     \<and> (\<forall>i. Suc i < length rs \<longrightarrow> LastCheckin (rs ! Suc i) \<le> LastCheckin (rs ! i))"
proof -
  define rs where "rs = map (scan_reservation d) (sort_key (\<lambda>row. - last_checkin_timestamp row) tbl)"
  have res: "getReservations d (select_reservations tbl) = Inr rs"
    by (simp add: getReservations_def select_reservations_def getReservations_loop_scanned rs_def)
  have cols: "map (\<lambda>r. (JobID r, App r, Component r, Owner r, Notify r, Frequency r, TimeUnits r,
                 LastCheckin r, NumCheckins r)) rs
         = map (\<lambda>row. (id_col row, app row, component row, owner row, notify row, frequency row,
                   time_units row, last_checkin_timestamp row, num_checkins row))
             (sort_key (\<lambda>row. - last_checkin_timestamp row) tbl)"
    unfolding rs_def map_map comp_def scan_reservation_columns ..
  have "mset (map (\<lambda>row. (id_col row, app row, component row, owner row, notify row, frequency row,
                   time_units row, last_checkin_timestamp row, num_checkins row))
             (sort_key (\<lambda>row. - last_checkin_timestamp row) tbl))
        = mset (map (\<lambda>row. (id_col row, app row, component row, owner row, notify row,
                   frequency row, time_units row, last_checkin_timestamp row, num_checkins row))
             tbl)"
    by simp
  with cols have perm: "mset (map (\<lambda>r. (JobID r, App r, Component r, Owner r, Notify r, Frequency r,
                 TimeUnits r, LastCheckin r, NumCheckins r)) rs)
         = mset (map (\<lambda>row. (id_col row, app row, component row, owner row, notify row,
                   frequency row, time_units row, last_checkin_timestamp row, num_checkins row))
             tbl)"
    by (simp only:)
  have len: "length rs = length tbl"
    by (simp add: rs_def)
  have srt: "sorted_wrt (\<lambda>a b. LastCheckin b \<le> LastCheckin a) rs"
    unfolding rs_def by (rule sorted_desc_select)
  have adj: "\<forall>i. Suc i < length rs \<longrightarrow> LastCheckin (rs ! Suc i) \<le> LastCheckin (rs ! i)"
    using srt by (simp add: sorted_wrt_iff_nth_less)
  from res cols perm len srt adj show ?thesis
    by (intro exI [of _ rs] conjI)
qed

theorem getReservations_ordered_by_recency_witness:
  "\<exists>rs. getReservations example_deps (select_reservations example_table) = Inr rs
     \<and> map LastCheckin rs = [300, 100]
     \<and> Suc 0 < length rs \<and> LastCheckin (rs ! Suc 0) \<le> LastCheckin (rs ! 0)"
proof -
  from getReservations_ordered_by_recency [of example_deps example_table]
  obtain rs where res: "getReservations example_deps (select_reservations example_table) = Inr rs"
    and cols: "map (\<lambda>r. (JobID r, App r, Component r, Owner r, Notify r, Frequency r, TimeUnits r,
                 LastCheckin r, NumCheckins r)) rs
         = map (\<lambda>row. (id_col row, app row, component row, owner row, notify row, frequency row,
                   time_units row, last_checkin_timestamp row, num_checkins row))
             (sort_key (\<lambda>row. - last_checkin_timestamp row) example_table)"
    and len: "length rs = length example_table"
    and adj: "\<forall>i. Suc i < length rs \<longrightarrow> LastCheckin (rs ! Suc i) \<le> LastCheckin (rs ! i)"
    by (elim exE conjE)
  from cols have "map (\<lambda>t. fst (snd (snd (snd (snd (snd (snd (snd t))))))))
                    (map (\<lambda>r. (JobID r, App r, Component r, Owner r, Notify r, Frequency r,
                       TimeUnits r, LastCheckin r, NumCheckins r)) rs) = [300, 100]"
    by (simp add: example_table_def)
  then have last: "map LastCheckin rs = [300, 100]"
    by (simp add: comp_def)
  from len have one: "Suc 0 < length rs"
    by (simp add: example_table_def)
  with adj have "LastCheckin (rs ! Suc 0) \<le> LastCheckin (rs ! 0)"
    by simp
  with res last one show ?thesis
    by (intro exI [of _ rs] conjI)
qed

text \<open>
  C10. Every reservation that listing returns has an empty \<^verbatim>\<open>AlertMessage\<close>, whatever
  the stored \<^verbatim>\<open>alert_msg\<close>: the scanned value is assigned only when it is NULL or
  empty, and the field of a fresh \<^verbatim>\<open>reservation{}\<close> is empty otherwise.
\<close>

theorem getReservations_AlertMessage_empty:
  "getReservations d query = Inr rs \<Longrightarrow> r \<in> set rs \<Longrightarrow> AlertMessage r = []"
proof (cases query)
  case (Inl err)
  assume "getReservations d query = Inr rs"
  with Inl show ?thesis by (simp add: getReservations_def)
next
  case (Inr rows)
  assume "getReservations d query = Inr rs" and r: "r \<in> set rs"
  with Inr have "getReservations_loop d rows [] = Inr rs"
    by (simp add: getReservations_def)
  then have "\<forall>r \<in> set rs. AlertMessage r = []"
    by (rule getReservations_loop_AlertMessage) simp
  with r show ?thesis by blast
qed

theorem getReservations_AlertMessage_empty_witness:
  "getReservations example_deps (select_reservations example_table)
     = Inr (map (scan_reservation example_deps) (rev example_table))
   \<and> alert_msg (hd example_table) = Some ''disk full''
   \<and> scan_reservation example_deps (hd example_table)
        \<in> set (map (scan_reservation example_deps) (rev example_table))
   \<and> AlertMessage (scan_reservation example_deps (hd example_table)) = []"
proof -
  have res: "getReservations example_deps (select_reservations example_table)
     = Inr (map (scan_reservation example_deps) (rev example_table))"
    by (simp add: getReservations_def select_reservations_def getReservations_loop_scanned
        example_table_def)
  have mem: "scan_reservation example_deps (hd example_table)
        \<in> set (map (scan_reservation example_deps) (rev example_table))"
    by (simp add: example_table_def)
  have "alert_msg (hd example_table) = Some ''disk full''"
    by (simp add: example_table_def)
  with res mem getReservations_AlertMessage_empty [OF res mem] show ?thesis
    by blast
qed

subsection \<open>Validation\<close>

lemma validateReservation_units:
  "validateReservation res =
     (if TimeUnits res \<in> {''seconds'', ''minutes'', ''hours''} then None
      else Some (Err ''Invalid time_units passed in''))"
  by (simp add: validateReservation_def Let_def)

lemma validateSnooze_units:
  "validateSnooze p =
     (if TimeUnits_snooze p \<in> {''seconds'', ''minutes'', ''hours''}
      then (if Duration p = 0 then Some (Err []) else None)
      else Some (Err ''Invalid time_units passed in''))"
  by (simp add: validateSnooze_def validTimeUnits_def Let_def)

lemma makeReservation_invalid:
  assumes "validateReservation res = Some err" and "req = Decoded res \<or> req = DecodeError res"
  shows "makeReservation persist db req =
           (db, Reply 400 (Text (''Unable to store reservation, validation failure [''
                                   @ message err @ '']'')))"
  using assms by (auto simp add: makeReservation_def writeError_def)

lemma makeReservation_valid:
  assumes "validateReservation res = None" and "req = Decoded res \<or> req = DecodeError res"
  shows "makeReservation persist db req =
           (case persist db res of
              (db', Some err) \<Rightarrow> (db', Reply 400 (Text ''Unable to store reservation''))
            | (db', None) \<Rightarrow> (db', Reply 200 (Text ''OK'')))"
  using assms by (auto simp add: makeReservation_def writeError_def writeResponse_def)

lemma doSnooze_invalid:
  assumes "validateSnooze p = Some err"
  shows "doSnooze persist2 db (Decoded p) =
           (db, Reply 400 (Text (''Unable to store snooze, validation failure [''
                                   @ message err @ '']'')))"
  using assms by (simp add: doSnooze_def writeError_def)

text \<open>
  C7. A reservation whose \<^verbatim>\<open>TimeUnits\<close> is not \<^verbatim>\<open>seconds\<close>, \<^verbatim>\<open>minutes\<close> or \<^verbatim>\<open>hours\<close>
  fails validation, and \<^verbatim>\<open>makeReservation\<close> answers 400 and leaves the database as it
  was, whatever the store function is (also when decoding reported an error); the same
  holds of a snooze and \<^verbatim>\<open>doSnooze\<close>. A reservation whose \<^verbatim>\<open>TimeUnits\<close> is one of the
  three passes validation, and a snooze whose \<^verbatim>\<open>TimeUnits\<close> is one of the three is not
  rejected for its time units.
\<close>

theorem time_units_validated:
  "(TimeUnits res \<notin> {''seconds'', ''minutes'', ''hours''} \<longrightarrow>
      validateReservation res = Some (Err ''Invalid time_units passed in'')
      \<and> makeReservation persist db (Decoded res) =
          (db, Reply 400 (Text ''Unable to store reservation, validation failure [Invalid time_units passed in]''))
      \<and> makeReservation persist db (DecodeError res) =
          (db, Reply 400 (Text ''Unable to store reservation, validation failure [Invalid time_units passed in]'')))
   \<and> (TimeUnits_snooze p \<notin> {''seconds'', ''minutes'', ''hours''} \<longrightarrow>
      validateSnooze p = Some (Err ''Invalid time_units passed in'')
      \<and> doSnooze persist2 db2 (Decoded p) =
          (db2, Reply 400 (Text ''Unable to store snooze, validation failure [Invalid time_units passed in]'')))
   \<and> (TimeUnits res \<in> {''seconds'', ''minutes'', ''hours''} \<longrightarrow> validateReservation res = None)
   \<and> (TimeUnits_snooze p \<in> {''seconds'', ''minutes'', ''hours''} \<longrightarrow>
      validateSnooze p \<noteq> Some (Err ''Invalid time_units passed in''))"
proof (intro conjI impI)
  assume bad: "TimeUnits res \<notin> {''seconds'', ''minutes'', ''hours''}"
  then show v: "validateReservation res = Some (Err ''Invalid time_units passed in'')"
    by (simp only: validateReservation_units if_False)
  show "makeReservation persist db (Decoded res) =
          (db, Reply 400 (Text ''Unable to store reservation, validation failure [Invalid time_units passed in]''))"
    using makeReservation_invalid [OF v, of "Decoded res" persist db] by simp
  show "makeReservation persist db (DecodeError res) =
          (db, Reply 400 (Text ''Unable to store reservation, validation failure [Invalid time_units passed in]''))"
    using makeReservation_invalid [OF v, of "DecodeError res" persist db] by simp
next
  assume bad: "TimeUnits_snooze p \<notin> {''seconds'', ''minutes'', ''hours''}"
  then show v: "validateSnooze p = Some (Err ''Invalid time_units passed in'')"
    by (simp only: validateSnooze_units if_False)
  show "doSnooze persist2 db2 (Decoded p) =
          (db2, Reply 400 (Text ''Unable to store snooze, validation failure [Invalid time_units passed in]''))"
    using doSnooze_invalid [OF v, of persist2 db2] by simp
next
  assume "TimeUnits res \<in> {''seconds'', ''minutes'', ''hours''}"
  then show "validateReservation res = None"
    by (simp only: validateReservation_units if_True)
next
  assume "TimeUnits_snooze p \<in> {''seconds'', ''minutes'', ''hours''}"
  then show "validateSnooze p \<noteq> Some (Err ''Invalid time_units passed in'')"
    by (simp add: validateSnooze_units)
qed

theorem time_units_validated_witness:
  "TimeUnits (example_reservation\<lparr>TimeUnits := ''days''\<rparr>) \<notin> {''seconds'', ''minutes'', ''hours''}
   \<and> makeReservation (storeReservation False) empty_store
         (Decoded (example_reservation\<lparr>TimeUnits := ''days''\<rparr>)) =
       (empty_store, Reply 400 (Text ''Unable to store reservation, validation failure [Invalid time_units passed in]''))
   \<and> TimeUnits_snooze (example_snooze\<lparr>TimeUnits_snooze := ''weeks''\<rparr>) \<notin> {''seconds'', ''minutes'', ''hours''}
   \<and> doSnooze (storeSnooze False) empty_store
         (Decoded (example_snooze\<lparr>TimeUnits_snooze := ''weeks''\<rparr>)) =
       (empty_store, Reply 400 (Text ''Unable to store snooze, validation failure [Invalid time_units passed in]''))
   \<and> TimeUnits example_reservation \<in> {''seconds'', ''minutes'', ''hours''}
   \<and> validateReservation example_reservation = None
   \<and> TimeUnits_snooze example_snooze \<in> {''seconds'', ''minutes'', ''hours''}
   \<and> validateSnooze example_snooze \<noteq> Some (Err ''Invalid time_units passed in'')"
proof -
  have bad: "TimeUnits (example_reservation\<lparr>TimeUnits := ''days''\<rparr>) \<notin> {''seconds'', ''minutes'', ''hours''}"
    by simp
  have bad2: "TimeUnits_snooze (example_snooze\<lparr>TimeUnits_snooze := ''weeks''\<rparr>) \<notin> {''seconds'', ''minutes'', ''hours''}"
    by simp
  have good: "TimeUnits example_reservation \<in> {''seconds'', ''minutes'', ''hours''}"
    by (simp add: example_reservation_def)
  have good2: "TimeUnits_snooze example_snooze \<in> {''seconds'', ''minutes'', ''hours''}"
    by (simp add: example_snooze_def)
  from bad bad2
    time_units_validated [of "example_reservation\<lparr>TimeUnits := ''days''\<rparr>"
      "storeReservation False" empty_store "example_snooze\<lparr>TimeUnits_snooze := ''weeks''\<rparr>"
      "storeSnooze False" empty_store]
  have rejected:
    "makeReservation (storeReservation False) empty_store
         (Decoded (example_reservation\<lparr>TimeUnits := ''days''\<rparr>)) =
       (empty_store, Reply 400 (Text ''Unable to store reservation, validation failure [Invalid time_units passed in]''))"
    "doSnooze (storeSnooze False) empty_store
         (Decoded (example_snooze\<lparr>TimeUnits_snooze := ''weeks''\<rparr>)) =
       (empty_store, Reply 400 (Text ''Unable to store snooze, validation failure [Invalid time_units passed in]''))"
    by blast+
  from good good2
    time_units_validated [of example_reservation "storeReservation False" empty_store
      example_snooze "storeSnooze False" empty_store]
  have accepted: "validateReservation example_reservation = None"
    "validateSnooze example_snooze \<noteq> Some (Err ''Invalid time_units passed in'')"
    by blast+
  from bad bad2 good good2 rejected accepted show ?thesis
    by blast
qed

text \<open>
  C5, as the code has it. A snooze whose duration is 0 fails validation, and
  \<^verbatim>\<open>doSnooze\<close> answers 400 and leaves the database as it was, whatever the store
  function is. The validation of a reservation reads its time units only: its result
  does not depend on the frequency, and a reservation with one of the three time units
  goes to the store whatever its frequency.
\<close>

theorem zero_duration_rejected_frequency_unchecked:
  "(Duration p = 0 \<longrightarrow>
      (\<exists>err. validateSnooze p = Some err
         \<and> doSnooze persist2 db2 (Decoded p) =
             (db2, Reply 400 (Text (''Unable to store snooze, validation failure [''
                                     @ message err @ '']'')))))
   \<and> validateReservation (res\<lparr>Frequency := f\<rparr>) = validateReservation res
   \<and> (TimeUnits res \<in> {''seconds'', ''minutes'', ''hours''} \<longrightarrow>
        makeReservation persist db (Decoded (res\<lparr>Frequency := f\<rparr>)) =
          (case persist db (res\<lparr>Frequency := f\<rparr>) of
             (db', Some err) \<Rightarrow> (db', Reply 400 (Text ''Unable to store reservation''))
           | (db', None) \<Rightarrow> (db', Reply 200 (Text ''OK''))))"
proof (intro conjI impI)
  assume zero: "Duration p = 0"
  then have "\<exists>err. validateSnooze p = Some err"
    by (simp add: validateSnooze_units)
  then obtain err where v: "validateSnooze p = Some err" ..
  from doSnooze_invalid [OF v, of persist2 db2] v
  show "\<exists>err. validateSnooze p = Some err
         \<and> doSnooze persist2 db2 (Decoded p) =
             (db2, Reply 400 (Text (''Unable to store snooze, validation failure [''
                                     @ message err @ '']'')))"
    by blast
next
  show "validateReservation (res\<lparr>Frequency := f\<rparr>) = validateReservation res"
    by (simp add: validateReservation_units)
next
  assume "TimeUnits res \<in> {''seconds'', ''minutes'', ''hours''}"
  then have "validateReservation (res\<lparr>Frequency := f\<rparr>) = None"
    by (simp add: validateReservation_units)
  then show "makeReservation persist db (Decoded (res\<lparr>Frequency := f\<rparr>)) =
          (case persist db (res\<lparr>Frequency := f\<rparr>) of
             (db', Some err) \<Rightarrow> (db', Reply 400 (Text ''Unable to store reservation''))
           | (db', None) \<Rightarrow> (db', Reply 200 (Text ''OK'')))"
    by (rule makeReservation_valid) simp
qed

theorem zero_duration_rejected_frequency_unchecked_witness:
  "Duration (example_snooze\<lparr>Duration := 0\<rparr>) = 0
   \<and> doSnooze (storeSnooze False) empty_store (Decoded (example_snooze\<lparr>Duration := 0\<rparr>)) =
       (empty_store, Reply 400 (Text ''Unable to store snooze, validation failure []''))
   \<and> TimeUnits example_reservation \<in> {''seconds'', ''minutes'', ''hours''}
   \<and> snd (makeReservation (storeReservation False) empty_store
             (Decoded (example_reservation\<lparr>Frequency := - 3\<rparr>))) = Reply 200 (Text ''OK'')"
proof -
  have zero: "Duration (example_snooze\<lparr>Duration := 0\<rparr>) = 0"
    by simp
  have good: "TimeUnits example_reservation \<in> {''seconds'', ''minutes'', ''hours''}"
    by (simp add: example_reservation_def)
  have v: "validateSnooze (example_snooze\<lparr>Duration := 0\<rparr>) = Some (Err [])"
    by (simp add: validateSnooze_units example_snooze_def)
  from zero good v
    zero_duration_rejected_frequency_unchecked [where p = "example_snooze\<lparr>Duration := 0\<rparr>"
      and ?persist2.0 = "storeSnooze False" and ?db2.0 = empty_store and res = example_reservation
      and f = "- 3" and persist = "storeReservation False" and db = empty_store]
  show ?thesis
    by (auto simp add: storeReservation_def)
qed

text \<open>
  C5, as the specification states it, fails: a reservation with frequency 0 and the time
  units \<^verbatim>\<open>seconds\<close> passes validation, and \<^verbatim>\<open>makeReservation\<close> stores it and answers
  \<^verbatim>\<open>OK\<close>.
\<close>

theorem zero_frequency_accepted:
  "Frequency (example_reservation\<lparr>Frequency := 0, TimeUnits := ''seconds''\<rparr>) \<le> 0
   \<and> validateReservation (example_reservation\<lparr>Frequency := 0, TimeUnits := ''seconds''\<rparr>) = None
   \<and> snd (makeReservation (storeReservation False) empty_store
             (Decoded (example_reservation\<lparr>Frequency := 0, TimeUnits := ''seconds''\<rparr>)))
       = Reply 200 (Text ''OK'')
   \<and> map frequency (reservations_tbl (fst (makeReservation (storeReservation False) empty_store
             (Decoded (example_reservation\<lparr>Frequency := 0, TimeUnits := ''seconds''\<rparr>))))) = [0]"
  by (simp add: validateReservation_units makeReservation_def storeReservation_def
      writeResponse_def empty_store_def example_reservation_def)

subsection \<open>Checkins\<close>

lemma doCheckin_steps:
  "doCheckin (storeCheckin f1) (logHouseKeeping f2) db (Decoded c) now =
     (if f1 then (db, Reply 200 (Status False (''Unable to save checkin: '' @ App_checkin c)))
      else if f2
      then (fst (storeCheckin False db c now),
            Reply 200 (Status False (''Unable to save checkin: '' @ App_checkin c)))
      else (fst (logHouseKeeping False (fst (storeCheckin False db c now)) c now),
            Reply 200 (Status True (''Application checked in: '' @ App_checkin c))))"
  by (simp add: doCheckin_def storeCheckin_def logHouseKeeping_def writeResponse_def)

lemma storeCheckin_housekeeping:
  "housekeeping_tbl (fst (storeCheckin False db c now)) = housekeeping_tbl db"
  by (simp add: storeCheckin_def)

lemma logHouseKeeping_tables:
  "reservations_tbl (fst (logHouseKeeping False db c now)) = reservations_tbl db
   \<and> housekeeping_tbl (fst (logHouseKeeping False db c now))
       = housekeeping_tbl db @ [CheckinLogged (App_checkin c) (Component_checkin c) now]"
  by (simp add: logHouseKeeping_def)

lemma storeCheckin_unknown:
  assumes "filter (same_pair (App_checkin c) (Component_checkin c)) (reservations_tbl db) = []"
  shows "filter (same_pair (App_checkin c) (Component_checkin c))
           (reservations_tbl (fst (storeCheckin False db c now)))
         = [\<lparr>id_col = next_id (reservations_tbl db), app = App_checkin c,
             component = Component_checkin c, owner = [], notify = [],
             alert_msg = None, frequency = 0, time_units = [],
             last_checkin_timestamp = now, num_checkins = 1\<rparr>]"
  using assms by (simp add: storeCheckin_def same_pair_def)

lemma storeCheckin_known:
  assumes "filter (same_pair (App_checkin c) (Component_checkin c)) (reservations_tbl db) \<noteq> []"
  shows "filter (same_pair (App_checkin c) (Component_checkin c))
           (reservations_tbl (fst (storeCheckin False db c now)))
         = map (\<lambda>row. row\<lparr>last_checkin_timestamp := now, num_checkins := num_checkins row + 1\<rparr>)
             (filter (same_pair (App_checkin c) (Component_checkin c)) (reservations_tbl db))"
proof -
  have "filter (same_pair a b)
          (map (\<lambda>row. if same_pair a b row
                      then row\<lparr>last_checkin_timestamp := now, num_checkins := num_checkins row + 1\<rparr>
                      else row) tbl)
        = map (\<lambda>row. row\<lparr>last_checkin_timestamp := now, num_checkins := num_checkins row + 1\<rparr>)
            (filter (same_pair a b) tbl)" for a b tbl
    by (induction tbl) (simp_all add: same_pair_def)
  with assms show ?thesis
    by (simp add: storeCheckin_def)
qed

lemma storeCheckin_recorded:
  "filter (same_pair (App_checkin c) (Component_checkin c))
       (reservations_tbl (fst (storeCheckin False db c now))) \<noteq> []
   \<and> list_all (\<lambda>row. last_checkin_timestamp row = now)
       (filter (same_pair (App_checkin c) (Component_checkin c))
          (reservations_tbl (fst (storeCheckin False db c now))))"
proof (cases "filter (same_pair (App_checkin c) (Component_checkin c)) (reservations_tbl db) = []")
  case True
  then show ?thesis
    by (simp add: storeCheckin_unknown)
next
  case False
  then show ?thesis
    by (simp add: storeCheckin_known list_all_iff)
qed

text \<open>
  C4, as the code has it. \<^verbatim>\<open>doCheckin\<close> applies a checkin in two calls, first the update
  of the reservation and then the housekeeping log entry, and reports success only when
  both succeed. When the update fails the database is as it was. When the update
  succeeds and the log entry fails, the database keeps the update (the pair has a row,
  and its last checkin is \<open>now\<close>), the housekeeping log is as it was, and the reply reports
  a failure. When both succeed the database holds the update and the log entry.
\<close>

theorem doCheckin_two_steps:
  "doCheckin (storeCheckin f1) (logHouseKeeping f2) db (Decoded c) now =
     (if f1 then (db, Reply 200 (Status False (''Unable to save checkin: '' @ App_checkin c)))
      else if f2
      then (fst (storeCheckin False db c now),
            Reply 200 (Status False (''Unable to save checkin: '' @ App_checkin c)))
      else (fst (logHouseKeeping False (fst (storeCheckin False db c now)) c now),
            Reply 200 (Status True (''Application checked in: '' @ App_checkin c))))
   \<and> housekeeping_tbl (fst (storeCheckin False db c now)) = housekeeping_tbl db
   \<and> filter (same_pair (App_checkin c) (Component_checkin c))
       (reservations_tbl (fst (storeCheckin False db c now))) \<noteq> []
   \<and> list_all (\<lambda>row. last_checkin_timestamp row = now)
       (filter (same_pair (App_checkin c) (Component_checkin c))
          (reservations_tbl (fst (storeCheckin False db c now))))
   \<and> reservations_tbl (fst (logHouseKeeping False (fst (storeCheckin False db c now)) c now))
       = reservations_tbl (fst (storeCheckin False db c now))
   \<and> housekeeping_tbl (fst (logHouseKeeping False (fst (storeCheckin False db c now)) c now))
       = housekeeping_tbl db @ [CheckinLogged (App_checkin c) (Component_checkin c) now]"
  using doCheckin_steps [of f1 f2 db c now] storeCheckin_housekeeping [of db c now]
    storeCheckin_recorded [of c db now]
    logHouseKeeping_tables [of "fst (storeCheckin False db c now)" c now]
  by simp

text \<open>
  C4, as the specification states it, fails: on the empty store, when the update succeeds
  and the log entry fails, the checkin of new/x at 1000 is persisted (one checkin, last
  at 1000), the housekeeping log stays empty, and the reply reports a failure.
\<close>

theorem doCheckin_not_atomic:
  "doCheckin (storeCheckin False) (logHouseKeeping True) empty_store (Decoded example_checkin) 1000
   = (\<lparr>reservations_tbl =
          [\<lparr>id_col = 1, app = ''new'', component = ''x'', owner = [], notify = [],
            alert_msg = None, frequency = 0, time_units = [],
            last_checkin_timestamp = 1000, num_checkins = 1\<rparr>],
        housekeeping_tbl = [], snoozes_tbl = []\<rparr>,
      Reply 200 (Status False ''Unable to save checkin: new''))"
  by (simp add: doCheckin_def storeCheckin_def logHouseKeeping_def writeResponse_def
      empty_store_def example_checkin_def next_id_def)

text \<open>
  C6. A checkin for a pair that has no reservation is accepted: when the store does not
  fail, \<^verbatim>\<open>doCheckin\<close> reports success, and the pair then has exactly one record, with
  one checkin, its last checkin at \<open>now\<close>, and the checkin is in the housekeeping log.
\<close>

theorem checkin_unknown_pair_recorded:
  assumes "filter (same_pair (App_checkin c) (Component_checkin c)) (reservations_tbl db) = []"
  shows "\<exists>db'. doCheckin (storeCheckin False) (logHouseKeeping False) db (Decoded c) now
           = (db', Reply 200 (Status True (''Application checked in: '' @ App_checkin c)))
         \<and> map num_checkins
             (filter (same_pair (App_checkin c) (Component_checkin c)) (reservations_tbl db')) = [1]
         \<and> map last_checkin_timestamp
             (filter (same_pair (App_checkin c) (Component_checkin c)) (reservations_tbl db')) = [now]
         \<and> housekeeping_tbl db'
             = housekeeping_tbl db @ [CheckinLogged (App_checkin c) (Component_checkin c) now]"
proof -
  define db' where "db' = fst (logHouseKeeping False (fst (storeCheckin False db c now)) c now)"
  have run: "doCheckin (storeCheckin False) (logHouseKeeping False) db (Decoded c) now
           = (db', Reply 200 (Status True (''Application checked in: '' @ App_checkin c)))"
    by (simp add: doCheckin_steps db'_def)
  have tbl: "reservations_tbl db' = reservations_tbl (fst (storeCheckin False db c now))"
    by (simp add: db'_def logHouseKeeping_tables)
  have log: "housekeeping_tbl db'
             = housekeeping_tbl db @ [CheckinLogged (App_checkin c) (Component_checkin c) now]"
    by (simp add: db'_def logHouseKeeping_tables storeCheckin_housekeeping)
  from run tbl log storeCheckin_unknown [OF assms, of now] show ?thesis
    by simp
qed

theorem checkin_unknown_pair_recorded_witness:
  "filter (same_pair (App_checkin example_checkin) (Component_checkin example_checkin))
     (reservations_tbl example_store) = []
   \<and> (\<exists>db'. doCheckin (storeCheckin False) (logHouseKeeping False) example_store
               (Decoded example_checkin) 1000
           = (db', Reply 200 (Status True (''Application checked in: '' @ App_checkin example_checkin)))
         \<and> map num_checkins
             (filter (same_pair (App_checkin example_checkin) (Component_checkin example_checkin))
                (reservations_tbl db')) = [1])"
proof -
  have unknown: "filter (same_pair (App_checkin example_checkin) (Component_checkin example_checkin))
     (reservations_tbl example_store) = []"
    by (simp add: example_checkin_def example_store_def example_table_def same_pair_def)
  from checkin_unknown_pair_recorded [OF unknown, of 1000]
  obtain db' where run: "doCheckin (storeCheckin False) (logHouseKeeping False) example_store
               (Decoded example_checkin) 1000
           = (db', Reply 200 (Status True (''Application checked in: '' @ App_checkin example_checkin)))"
    and num: "map num_checkins
             (filter (same_pair (App_checkin example_checkin) (Component_checkin example_checkin))
                (reservations_tbl db')) = [1]"
    by (elim exE conjE)
  from run num have "\<exists>db'. doCheckin (storeCheckin False) (logHouseKeeping False) example_store
               (Decoded example_checkin) 1000
           = (db', Reply 200 (Status True (''Application checked in: '' @ App_checkin example_checkin)))
         \<and> map num_checkins
             (filter (same_pair (App_checkin example_checkin) (Component_checkin example_checkin))
                (reservations_tbl db')) = [1]"
    by (intro exI [of _ db'] conjI)
  with unknown show ?thesis
    by (intro conjI)
qed

subsection \<open>SLA evaluation\<close>


lemma Evaluate_valid:
  assumes "unitSeconds (TimeUnits res) = Some u"
  shows "Evaluate render res activeSnooze now =
           Some \<lparr>failing = (if active activeSnooze res now then False
                             else if now - LastCheckin res < 0 then False
                             else now - LastCheckin res > Frequency res * u),
                  elapsed = now - LastCheckin res,
                  elapsedPhrase = (if now - LastCheckin res < 0 then ''just now''
                                   else render (now - LastCheckin res) @ '' ago'')\<rparr>"
  using assms by (simp add: Evaluate_def Let_def)

lemma active_Some:
  assumes "App_snooze s = App res" and "Component_snooze s = Component res"
    and "expiry s = Some e" and "now < e"
  shows "active (Some s) res now"
  using assms by (simp add: active_def)

text \<open>
  C2. For a reservation with a recognised time unit, and a snooze for the same
  (app, component) whose expiry instant is after \<open>now\<close>, the evaluation returns
  \<open>failing = false\<close>, whatever the last checkin, the frequency and \<open>now\<close> are.
\<close>

theorem Evaluate_snoozed_not_failing:
  assumes "unitSeconds (TimeUnits res) = Some u"
    and "App_snooze s = App res" and "Component_snooze s = Component res"
    and "expiry s = Some e" and "now < e"
  shows "\<exists>ev. Evaluate render res (Some s) now = Some ev \<and> \<not> failing ev"
proof -
  have "active (Some s) res now"
    using assms(2-5) by (rule active_Some)
  with Evaluate_valid [OF assms(1), of render "Some s" now] show ?thesis
    by simp
qed

text \<open>
  The witness is the scenario of the specification: at T + 6 min 30 s the reservation is
  past its gap of 5 minutes, and fails without the snooze; with the snooze of one hour
  issued at T + 6 min it does not.
\<close>

theorem Evaluate_snoozed_not_failing_witness:
  "unitSeconds (TimeUnits scenario_reservation) = Some 60
   \<and> App_snooze scenario_snooze = App scenario_reservation
   \<and> Component_snooze scenario_snooze = Component scenario_reservation
   \<and> expiry scenario_snooze = Some 4960 \<and> (1390::int) < 4960
   \<and> (\<exists>ev. Evaluate example_render scenario_reservation (Some scenario_snooze) 1390 = Some ev
          \<and> \<not> failing ev)
   \<and> map_option failing (Evaluate example_render scenario_reservation None 1390) = Some True"
proof -
  have u: "unitSeconds (TimeUnits scenario_reservation) = Some 60"
    by (simp add: scenario_reservation_def example_reservation_def unitSeconds_def)
  have a: "App_snooze scenario_snooze = App scenario_reservation"
    by (simp add: scenario_reservation_def example_reservation_def scenario_snooze_def)
  have c: "Component_snooze scenario_snooze = Component scenario_reservation"
    by (simp add: scenario_reservation_def example_reservation_def scenario_snooze_def)
  have e: "expiry scenario_snooze = Some 4960"
    by (simp add: expiry_def scenario_snooze_def unitSeconds_def)
  have n: "(1390::int) < 4960"
    by simp
  have gap: "Frequency scenario_reservation * 60 = 300" and last: "LastCheckin scenario_reservation = 1000"
    by (simp_all add: scenario_reservation_def example_reservation_def)
  have unsnoozed: "map_option failing (Evaluate example_render scenario_reservation None 1390) = Some True"
    unfolding Evaluate_valid [OF u] by (simp add: active_def gap last)
  from u a c e n unsnoozed Evaluate_snoozed_not_failing [OF u a c e n, of example_render]
  show ?thesis
    by (intro conjI)
qed




text \<open>
  C8. For a reservation with a recognised time unit whose last checkin is after \<open>now\<close>,
  the evaluation returns \<open>failing = false\<close>, whatever its frequency and with or without a
  snooze, and the phrase is \<^verbatim>\<open>just now\<close>.
\<close>

theorem Evaluate_future_checkin:
  assumes "unitSeconds (TimeUnits res) = Some u"
    and "now < LastCheckin res"
  shows "\<exists>ev. Evaluate render res activeSnooze now = Some ev
            \<and> \<not> failing ev \<and> elapsedPhrase ev = ''just now''"
  using assms(2) Evaluate_valid [OF assms(1), of render activeSnooze now]
  by simp

text \<open>
  The witness has the frequency -3, which validation accepts, and the last checkin at
  1000, evaluated at 900.
\<close>

theorem Evaluate_future_checkin_witness:
  "unitSeconds (TimeUnits (scenario_reservation\<lparr>Frequency := - 3\<rparr>)) = Some 60
   \<and> 900 < LastCheckin (scenario_reservation\<lparr>Frequency := - 3\<rparr>)
   \<and> (\<exists>ev. Evaluate example_render (scenario_reservation\<lparr>Frequency := - 3\<rparr>) None 900 = Some ev
          \<and> \<not> failing ev \<and> elapsedPhrase ev = ''just now'')"
proof -
  have u: "unitSeconds (TimeUnits (scenario_reservation\<lparr>Frequency := - 3\<rparr>)) = Some 60"
    by (simp add: scenario_reservation_def example_reservation_def unitSeconds_def)
  have l: "900 < LastCheckin (scenario_reservation\<lparr>Frequency := - 3\<rparr>)"
    by (simp add: scenario_reservation_def example_reservation_def)
  from u l Evaluate_future_checkin [OF u l, of example_render None] show ?thesis
    by (intro conjI)
qed

end
